theory Spec2Isabelle
  imports Main "HOL-Library.Sublist"
begin

section \<open>Kaspixel frontend: the client reconciliation engine\<close>

text \<open>
  A shallow embedding of the client side of Kaspixel: the REST helper \<open>useApi\<close>, the
  WebSocket hook \<open>useWebSocket\<close> and the \<open>PixelCanvas\<close> component with its click
  handler, its transaction-verification loop and its wallet-balance loop.

  JavaScript runs one callback at a time. An \<open>async\<close> function is therefore a chain of
  atomic segments, cut at each \<open>await\<close>; each segment is one function of the model, and the
  order in which the browser runs the segments is an explicit list of events.
  Times are milliseconds, kept as integers.
\<close>

subsection \<open>Numbers in template literals\<close>

text \<open>\<open>`${x},${y}`\<close> renders an integral number in decimal, with a leading minus when negative.\<close>

definition digit_char :: "nat \<Rightarrow> char" where
  "digit_char d = ''0123456789'' ! (d mod 10)"

fun string_of_nat :: "nat \<Rightarrow> string" where
  "string_of_nat n =
     (if n < 10 then [digit_char n] else string_of_nat (n div 10) @ [digit_char (n mod 10)])"

declare string_of_nat.simps [simp del]

definition string_of_int :: "int \<Rightarrow> string" where
  "string_of_int i = (if i < 0 then CHR ''-'' # string_of_nat (nat (- i)) else string_of_nat (nat i))"

definition pixelKey :: "int \<Rightarrow> int \<Rightarrow> string" where
  "pixelKey x y = string_of_int x @ '','' @ string_of_int y"

text \<open>\<open>haystack.includes(needle)\<close>: the needle occurs as a contiguous run.\<close>

definition str_includes :: "string \<Rightarrow> string \<Rightarrow> bool" where
  "str_includes haystack needle = sublist needle haystack"

subsection \<open>The REST helper (\<open>useApi\<close>)\<close>

text \<open>
  What \<open>fetch\<close> can do: reject (a network error, carrying the error's message), or resolve
  to a response with a status, a text body and the outcome of \<open>response.json()\<close>, which
  throws on a body that is not JSON.
\<close>

record 'a response =
  status :: nat
  body_text :: string
  body_json :: "string + 'a"

datatype 'a fetch_outcome = Rejected string | Resolved "'a response"

definition ok :: "'a response \<Rightarrow> bool" where
  "ok r = (200 \<le> status r \<and> status r \<le> 299)"

record api_state =
  isLoading :: bool
  error :: "string option"

definition getApiUrl :: "string \<Rightarrow> string \<Rightarrow> string" where
  "getApiUrl baseUrl endpoint = baseUrl @ ''/'' @ endpoint"

record balance_data =
  pixel_balance :: int

text \<open>
  \<open>getWalletBalance\<close>: every exception of the \<open>try\<close> block ends in the \<open>catch\<close>, which stores
  the message and returns 0; \<open>finally\<close> clears the loading flag on every path.
  \<open>getWalletBalance_result\<close> is the returned value and the stored error for one outcome of
  \<open>fetch\<close>; the first argument of \<open>getWalletBalance\<close> is the network, the outcome of \<open>fetch\<close>
  for a URL.
\<close>

definition balanceUrl :: "string \<Rightarrow> nat \<Rightarrow> string \<Rightarrow> string" where
  "balanceUrl baseUrl timestamp wallet_address =
     getApiUrl baseUrl (''wallets/'' @ wallet_address @ ''/balance?_t='' @ string_of_nat timestamp)"

definition getWalletBalance_result :: "balance_data fetch_outcome \<Rightarrow> int \<times> string option" where
  "getWalletBalance_result outcome =
     (case outcome of
        Rejected msg \<Rightarrow> (0, Some msg)
      | Resolved r \<Rightarrow>
          if \<not> ok r
          then (0, Some (''Failed to get wallet balance: '' @ string_of_nat (status r)))
          else (case body_json r of
                  Inl msg \<Rightarrow> (0, Some msg)
                | Inr data \<Rightarrow> (pixel_balance data, None)))"

definition getWalletBalance ::
  "(string \<Rightarrow> balance_data fetch_outcome) \<Rightarrow> string \<Rightarrow> nat \<Rightarrow> string \<Rightarrow> api_state \<Rightarrow> int \<times> api_state" where
  "getWalletBalance fetch baseUrl timestamp wallet_address api =
     (let url = balanceUrl baseUrl timestamp wallet_address;
          (value, err) = getWalletBalance_result (fetch url)
      in (value, \<lparr>isLoading = False, error = err\<rparr>))"

text \<open>A failed query: \<open>fetch\<close> rejects, or the response is not OK.\<close>

definition fetch_failed :: "'a fetch_outcome \<Rightarrow> bool" where
  "fetch_failed outcome = (case outcome of Rejected msg \<Rightarrow> True | Resolved r \<Rightarrow> \<not> ok r)"

text \<open>
  \<open>verifyTransaction\<close> and \<open>placePixel\<close> rethrow from their \<open>catch\<close>: the result is the
  thrown message (\<open>Inl\<close>) or the parsed body (\<open>Inr\<close>). Of the verification result the caller
  reads only \<open>verified\<close>.
\<close>

record verification_result =
  verified :: bool

definition verifyTransaction :: "verification_result fetch_outcome \<Rightarrow> string + verification_result" where
  "verifyTransaction outcome =
     (case outcome of
        Rejected msg \<Rightarrow> Inl msg
      | Resolved r \<Rightarrow>
          if \<not> ok r then Inl (''Failed to verify transaction: '' @ string_of_nat (status r))
          else body_json r)"

record place_data =
  remaining_balance :: "int option"

definition placePixel :: "place_data fetch_outcome \<Rightarrow> string + place_data" where
  "placePixel outcome =
     (case outcome of
        Rejected msg \<Rightarrow> Inl msg
      | Resolved r \<Rightarrow>
          if \<not> ok r
          then Inl (''Failed to place pixel: '' @ string_of_nat (status r) @ '' - '' @ body_text r)
          else body_json r)"

subsection \<open>The WebSocket hook: state and inbound messages\<close>

text \<open>
  The canvas is a JavaScript object from the key \<open>"x,y"\<close> to a colour. The hook keeps its own
  copy (\<open>canvasState\<close>), three refs and the time of the last pong. Timers and sockets are
  named by the identifiers the browser hands out.
\<close>

type_synonym canvas = "string \<rightharpoonup> string"

record ws_hook =
  isWsConnected :: bool
  isConnecting :: bool
  canvasState :: canvas
  socketRef :: "nat option"
  reconnectTimeoutRef :: "nat option"
  pingIntervalRef :: "nat option"
  lastPongRef :: int

definition ws_init :: "int \<Rightarrow> ws_hook" where
  "ws_init now = \<lparr>isWsConnected = False, isConnecting = False, canvasState = Map.empty,
     socketRef = None, reconnectTimeoutRef = None, pingIntervalRef = None, lastPongRef = now\<rparr>"

text \<open>
  A parsed message by its \<open>type\<close>; \<open>Unparseable\<close> is a frame on which \<open>JSON.parse\<close> or
  the destructuring throws, which the handler catches and logs.
\<close>

datatype ws_message =
    Canvas_state canvas
  | Pixel_update int int string
  | Pong
  | Ping
  | Other_type string
  | Unparseable

definition onmessage :: "int \<Rightarrow> ws_message \<Rightarrow> ws_hook \<Rightarrow> ws_hook" where
  "onmessage now msg h =
     (case msg of
        Canvas_state data \<Rightarrow> h\<lparr>canvasState := data\<rparr>
      | Pixel_update x y color \<Rightarrow> h\<lparr>canvasState := (canvasState h)(pixelKey x y \<mapsto> color)\<rparr>
      | Pong \<Rightarrow> h\<lparr>lastPongRef := now\<rparr>
      | Ping \<Rightarrow> h\<lparr>lastPongRef := now\<rparr>
      | Other_type t \<Rightarrow> h
      | Unparseable \<Rightarrow> h)"

subsection \<open>The component \<open>PixelCanvas\<close>: state\<close>

datatype backend_status = Connecting | Online | Offline

record toast =
  title :: string
  description :: string
  destructive :: bool

text \<open>A write request as \<open>placePixel\<close> receives it.\<close>

record place_request =
  req_x :: int
  req_y :: int
  req_color :: string
  req_wallet :: string
  req_transaction_id :: string

text \<open>
  The React state and the refs of the component that the modelled functions read or write.
  \<open>isMobile\<close>, \<open>isConnected\<close> and \<open>address\<close> come from other hooks and are inputs here.
  \<open>toasts\<close>, \<open>placeRequests\<close> and \<open>balancePollingCalls\<close> log the outward effects: the toasts
  shown, the write requests sent, and the calls of \<open>startWalletBalancePolling\<close> made by the
  verification loop (transaction id, pixels purchased, initial balance).
\<close>

record pixel_canvas =
  isMobile :: bool
  isConnected :: bool
  address :: "string option"
  selectedColor :: string
  remainingPixels :: int
  showPurchaseModal :: bool
  showMobileMessage :: bool
  canvasWidth :: int
  canvasHeight :: int
  pixelPackSize :: int
  backendStatus :: backend_status
  localCanvasState :: canvas
  transactionVerified :: bool
  transactionTime :: "int option"
  fastestTransactionTime :: "int option"
  verificationIntervalRef :: "nat option"
  timerIntervalRef :: "nat option"
  startTimeRef :: "int option"
  isVerifiedRef :: bool
  walletBalanceIntervalRef :: "nat option"
  toasts :: "toast list"
  placeRequests :: "place_request list"
  balancePollingCalls :: "(string \<times> int \<times> int) list"

definition pc_init :: "bool \<Rightarrow> bool \<Rightarrow> string option \<Rightarrow> pixel_canvas" where
  "pc_init mobile connected addr =
     \<lparr>isMobile = mobile, isConnected = connected, address = addr,
      selectedColor = ''#70C7BA'', remainingPixels = 5,
      showPurchaseModal = False, showMobileMessage = False,
      canvasWidth = 1000, canvasHeight = 1000, pixelPackSize = 10,
      backendStatus = Connecting, localCanvasState = Map.empty,
      transactionVerified = False, transactionTime = None, fastestTransactionTime = None,
      verificationIntervalRef = None, timerIntervalRef = None, startTimeRef = None,
      isVerifiedRef = False, walletBalanceIntervalRef = None,
      toasts = [], placeRequests = [], balancePollingCalls = []\<rparr>"

subsection \<open>Merging the hook's canvas into the local view\<close>

text \<open>
  The effect on \<open>[canvasState]\<close>: when the hook's canvas has at least one key, the local view
  becomes \<open>{...prevState, ...canvasState}\<close>. An empty canvas changes nothing.
\<close>

definition mergeCanvasState :: "canvas \<Rightarrow> pixel_canvas \<Rightarrow> pixel_canvas" where
  "mergeCanvasState cs pc =
     (if dom cs \<noteq> {}
      then pc\<lparr>localCanvasState := localCanvasState pc ++ cs, backendStatus := Online\<rparr>
      else pc)"

text \<open>
  One inbound frame: the handler updates the hook, and the effect runs when the handler
  has stored a new canvas object (a snapshot or a delta), not on the other frames.
  Each frame is rendered before the next one arrives.
\<close>

definition deliver :: "int \<Rightarrow> ws_message \<Rightarrow> ws_hook \<times> pixel_canvas \<Rightarrow> ws_hook \<times> pixel_canvas" where
  "deliver now msg st =
     (let h = onmessage now msg (fst st)
      in case msg of
           Canvas_state data \<Rightarrow> (h, mergeCanvasState (canvasState h) (snd st))
         | Pixel_update x y color \<Rightarrow> (h, mergeCanvasState (canvasState h) (snd st))
         | Pong \<Rightarrow> (h, snd st)
         | Ping \<Rightarrow> (h, snd st)
         | Other_type t \<Rightarrow> (h, snd st)
         | Unparseable \<Rightarrow> (h, snd st))"

text \<open>A delta as the server broadcasts it, and a run of deltas delivered in list order.\<close>

record delta =
  dx :: int
  dy :: int
  dcolor :: string

definition deliver_deltas :: "int \<Rightarrow> delta list \<Rightarrow> ws_hook \<times> pixel_canvas \<Rightarrow> ws_hook \<times> pixel_canvas" where
  "deliver_deltas now ds st = fold (\<lambda>d. deliver now (Pixel_update (dx d) (dy d) (dcolor d))) ds st"

subsection \<open>The click handler\<close>

text \<open>
  A click, after the browser's geometry: whether the canvas element is mounted, the raw
  canvas coordinates \<open>Math.floor((clientX - left) * scale)\<close>, and the clock and the random
  string that go into the request's transaction id. \<open>GRID_SIZE\<close> is 10; \<open>Math.floor(raw / 10) * 10\<close>
  on integers is \<open>raw div 10 * 10\<close>.
\<close>

record click =
  canvasPresent :: bool
  rawX :: int
  rawY :: int
  timestamp :: nat
  randomStr :: string

definition GRID_SIZE :: int where
  "GRID_SIZE = 10"

definition snap_to_grid :: "int \<Rightarrow> int" where
  "snap_to_grid raw = raw div GRID_SIZE * GRID_SIZE"

definition wallet_not_connected_toast :: toast where
  "wallet_not_connected_toast = \<lparr>title = ''Wallet not connected'',
     description = ''Please connect your wallet to place pixels.'', destructive = True\<rparr>"

definition out_of_pixels_toast :: "bool \<Rightarrow> toast" where
  "out_of_pixels_toast d = \<lparr>title = ''Out of pixels'',
     description = ''You've used all your pixels. Buy more to continue placing.'', destructive = d\<rparr>"

definition backend_error_toast :: "string \<Rightarrow> toast" where
  "backend_error_toast msg = \<lparr>title = ''Backend Error'',
     description = ''Could not save pixel to server: '' @ msg, destructive = True\<rparr>"

definition local_mode_toast :: toast where
  "local_mode_toast = \<lparr>title = ''Local Mode'',
     description = ''Pixel placed locally. Backend is offline.'', destructive = False\<rparr>"

text \<open>
  The closing step of the handler reads \<open>remainingPixels\<close> as the render that created the
  handler saw it, that is, its value at the click.
\<close>

definition last_pixel_notice :: "int \<Rightarrow> pixel_canvas \<Rightarrow> pixel_canvas" where
  "last_pixel_notice remaining_at_click pc =
     (if remaining_at_click = 1 then pc\<lparr>toasts := toasts pc @ [out_of_pixels_toast False]\<rparr> else pc)"

definition formatColor :: "string \<Rightarrow> string" where
  "formatColor c = (if prefix ''#'' c then c else ''#'' @ c)"

definition walletAddress :: "string option \<Rightarrow> string" where
  "walletAddress addr =
     (case addr of None \<Rightarrow> ''demo-wallet-address''
      | Some a \<Rightarrow> if a = [] then ''demo-wallet-address'' else a)"

text \<open>
  The handler up to its \<open>await placePixel(...)\<close>. The flag of the result tells whether a
  request is now in flight; otherwise the handler has returned.
\<close>

definition handlePixelClick_begin :: "click \<Rightarrow> pixel_canvas \<Rightarrow> pixel_canvas \<times> bool" where
  "handlePixelClick_begin ck pc =
     (if isMobile pc then (pc\<lparr>showMobileMessage := True\<rparr>, False)
      else if \<not> isConnected pc then (pc\<lparr>toasts := toasts pc @ [wallet_not_connected_toast]\<rparr>, False)
      else if remainingPixels pc \<le> 0 then (pc\<lparr>showPurchaseModal := True\<rparr>, False)
      else if \<not> canvasPresent ck then (pc, False)
      else
        let x = snap_to_grid (rawX ck); y = snap_to_grid (rawY ck)
        in if x < 0 \<or> x \<ge> canvasWidth pc \<or> y < 0 \<or> y \<ge> canvasHeight pc then (pc, False)
           else
             let pc1 = pc\<lparr>localCanvasState := (localCanvasState pc)(pixelKey x y \<mapsto> selectedColor pc)\<rparr>
             in if backendStatus pc = Online
                then (pc1\<lparr>placeRequests := placeRequests pc1 @
                        [\<lparr>req_x = x, req_y = y, req_color = formatColor (selectedColor pc),
                          req_wallet = walletAddress (address pc),
                          req_transaction_id = ''placement-'' @ string_of_nat (timestamp ck) @ ''-''
                            @ randomStr ck @ ''-'' @ string_of_int x @ ''-'' @ string_of_int y\<rparr>]\<rparr>, True)
                else (last_pixel_notice (remainingPixels pc)
                        (pc1\<lparr>toasts := toasts pc1 @ [local_mode_toast],
                             remainingPixels := remainingPixels pc1 - 1\<rparr>), False))"

text \<open>The handler from the answer of \<open>placePixel\<close> on: the inner \<open>try\<close> and its \<open>catch\<close>.\<close>

definition handlePixelClick_resume :: "int \<Rightarrow> string + place_data \<Rightarrow> pixel_canvas \<Rightarrow> pixel_canvas" where
  "handlePixelClick_resume remaining_at_click result pc =
     last_pixel_notice remaining_at_click
       (case result of
          Inr data \<Rightarrow>
            (case remaining_balance data of
               Some b \<Rightarrow> pc\<lparr>remainingPixels := b\<rparr>
             | None \<Rightarrow> pc\<lparr>remainingPixels := remainingPixels pc - 1\<rparr>)
        | Inl msg \<Rightarrow>
            if msg \<noteq> [] \<and> str_includes msg ''Insufficient pixel balance''
            then pc\<lparr>toasts := toasts pc @ [out_of_pixels_toast True],
                    remainingPixels := 0, showPurchaseModal := True\<rparr>
            else pc\<lparr>toasts := toasts pc @ [backend_error_toast msg]\<rparr>)"

text \<open>A click whose request, if one is sent, is answered before anything else happens.\<close>

definition handlePixelClick :: "click \<Rightarrow> place_data fetch_outcome \<Rightarrow> pixel_canvas \<Rightarrow> pixel_canvas" where
  "handlePixelClick ck outcome pc =
     (case handlePixelClick_begin ck pc of
        (pc1, awaiting) \<Rightarrow>
          if awaiting then handlePixelClick_resume (remainingPixels pc) (placePixel outcome) pc1
          else pc1)"


definition denied_click :: click where
  "denied_click = \<lparr>canvasPresent = True, rawX = 3, rawY = 4, timestamp = 1700000000000,
     randomStr = ''k3j9x2ab''\<rparr>"

definition denied_answer :: "place_data fetch_outcome" where
  "denied_answer = Resolved \<lparr>status = 400, body_text = ''Insufficient pixel balance'',
     body_json = Inl ''Unexpected token''\<rparr>"

text \<open>A phone with a connected wallet and no pixels left.\<close>

definition mobile_no_credit :: pixel_canvas where
  "mobile_no_credit = (pc_init True True (Some ''kaspa:abc''))\<lparr>remainingPixels := 0\<rparr>"

subsection \<open>The browser: timers and requests in flight\<close>

text \<open>
  \<open>setInterval\<close> and \<open>setTimeout\<close> return a fresh positive identifier and register a
  callback; \<open>clearInterval\<close> and \<open>clearTimeout\<close> remove it. A ref that holds an identifier
  says nothing about the timer being live: only this table does. The callbacks are the
  closures of the source, with the variables they captured.
\<close>

record verify_closure =
  txId :: string
  packs :: int
  txInitialBalance :: "int option"
  seenFastestTransactionTime :: "int option"
  seenPixelPackSize :: int
  seenRemainingPixels :: int

datatype ready_state = CONNECTING | OPEN | CLOSING | CLOSED

datatype callback =
    Ticker
  | VerifyPoll verify_closure
  | BalancePoll
  | SafetyTimeout
  | PingTick nat
  | Reconnect

record browser =
  timers :: "nat \<rightharpoonup> callback"
  next_timer :: nat
  pending :: "nat \<rightharpoonup> verify_closure"
  next_request :: nat
  sockets :: "nat \<rightharpoonup> ready_state"
  next_socket :: nat

definition browser_init :: browser where
  "browser_init = \<lparr>timers = Map.empty, next_timer = 1, pending = Map.empty, next_request = 1,
     sockets = Map.empty, next_socket = 1\<rparr>"

definition set_timer :: "callback \<Rightarrow> browser \<Rightarrow> nat \<times> browser" where
  "set_timer cb b =
     (next_timer b, b\<lparr>timers := (timers b)(next_timer b \<mapsto> cb), next_timer := Suc (next_timer b)\<rparr>)"

definition clear_timer :: "nat \<Rightarrow> browser \<Rightarrow> browser" where
  "clear_timer i b = b\<lparr>timers := (timers b)(i := None)\<rparr>"

text \<open>\<open>if (ref.current) clearInterval(ref.current)\<close>, without touching the ref.\<close>

definition clear_ref :: "nat option \<Rightarrow> browser \<Rightarrow> browser" where
  "clear_ref r b = (case r of None \<Rightarrow> b | Some i \<Rightarrow> clear_timer i b)"

subsection \<open>The transaction-verification loop\<close>

text \<open>
  \<open>verifyTransactionWithBackend\<close>: stop the loops of an earlier call, reset the shared flag
  \<open>isVerifiedRef\<close> and the clock, and start the elapsed-time ticker and the polling interval.
  The closure carries the arguments and the values of \<open>fastestTransactionTime\<close>,
  \<open>pixelPackSize\<close> and \<open>remainingPixels\<close> the memoised callback saw.
\<close>

definition verifyTransactionWithBackend ::
  "verify_closure \<Rightarrow> int \<Rightarrow> pixel_canvas \<times> browser \<Rightarrow> pixel_canvas \<times> browser" where
  "verifyTransactionWithBackend cl now st =
     (case st of (pc, b) \<Rightarrow>
        let b1 = clear_ref (verificationIntervalRef pc) b;
            b2 = clear_ref (timerIntervalRef pc) b1;
            (tid, b3) = set_timer Ticker b2;
            (vid, b4) = set_timer (VerifyPoll cl) b3
        in (pc\<lparr>startTimeRef := Some now, isVerifiedRef := False, transactionVerified := False,
                transactionTime := Some 0,
                timerIntervalRef := Some tid, verificationIntervalRef := Some vid\<rparr>, b4))"

text \<open>The ticker's callback, every 100 ms.\<close>

definition ticker_tick :: "int \<Rightarrow> pixel_canvas \<Rightarrow> pixel_canvas" where
  "ticker_tick now pc =
     (case startTimeRef pc of
        Some start \<Rightarrow> if \<not> isVerifiedRef pc then pc\<lparr>transactionTime := Some (now - start)\<rparr> else pc
      | None \<Rightarrow> pc)"

text \<open>
  The polling callback up to its \<open>await verifyTransaction(txId)\<close>: with the flag set it stops
  the interval and returns, otherwise it sends a request, which stays in flight.
\<close>

definition verify_tick :: "verify_closure \<Rightarrow> pixel_canvas \<times> browser \<Rightarrow> pixel_canvas \<times> browser" where
  "verify_tick cl st =
     (case st of (pc, b) \<Rightarrow>
        if isVerifiedRef pc
        then (pc\<lparr>verificationIntervalRef := None\<rparr>, clear_ref (verificationIntervalRef pc) b)
        else (pc, b\<lparr>pending := (pending b)(next_request b \<mapsto> cl),
                    next_request := Suc (next_request b)\<rparr>))"

text \<open>
  \<open>startWalletBalancePolling\<close> up to its first \<open>await\<close>: it stops an earlier balance interval.
  The call is logged with the transaction it was made for.
\<close>

definition startWalletBalancePolling_begin ::
  "string \<Rightarrow> int \<Rightarrow> int \<Rightarrow> pixel_canvas \<times> browser \<Rightarrow> pixel_canvas \<times> browser" where
  "startWalletBalancePolling_begin tx pixelsPurchased initial st =
     (case st of (pc, b) \<Rightarrow>
        (pc\<lparr>walletBalanceIntervalRef := None,
            balancePollingCalls := balancePollingCalls pc @ [(tx, pixelsPurchased, initial)]\<rparr>,
         clear_ref (walletBalanceIntervalRef pc) b))"

text \<open>
  The polling callback from the answer on. A thrown error is logged and nothing else happens.
  A verified answer is processed when the flag is still clear: set the flag, stop both
  intervals, record the confirmation time and start the balance polling.
\<close>

definition verify_answer ::
  "verify_closure \<Rightarrow> string + verification_result \<Rightarrow> int \<Rightarrow> pixel_canvas \<times> browser
     \<Rightarrow> pixel_canvas \<times> browser" where
  "verify_answer cl result now st =
     (case st of (pc, b) \<Rightarrow>
        case result of
          Inl msg \<Rightarrow> (pc, b)
        | Inr r \<Rightarrow>
            if verified r \<and> \<not> isVerifiedRef pc
            then
              let b1 = clear_ref (verificationIntervalRef pc) b;
                  b2 = clear_ref (timerIntervalRef pc) b1;
                  confirmationTime = now - (case startTimeRef pc of Some start \<Rightarrow> start | None \<Rightarrow> now);
                  pc1 = pc\<lparr>isVerifiedRef := True, transactionVerified := True,
                           verificationIntervalRef := None, timerIntervalRef := None,
                           transactionTime := Some confirmationTime\<rparr>;
                  pc2 = (case seenFastestTransactionTime cl of
                           None \<Rightarrow> pc1\<lparr>fastestTransactionTime := Some confirmationTime\<rparr>
                         | Some f \<Rightarrow> if confirmationTime < f
                                      then pc1\<lparr>fastestTransactionTime := Some confirmationTime\<rparr>
                                      else pc1);
                  totalPixelsPurchased = packs cl * seenPixelPackSize cl;
                  actualInitialBalance = (case txInitialBalance cl of Some i \<Rightarrow> i
                                          | None \<Rightarrow> seenRemainingPixels cl)
              in startWalletBalancePolling_begin (txId cl) totalPixelsPurchased actualInitialBalance
                   (pc2, b2)
            else (pc, b))"

text \<open>
  What can happen to the loop, one atomic segment per event: a purchase calls
  \<open>verifyTransactionWithBackend\<close>; the browser runs the callback of a live timer; the answer
  to a request in flight arrives. The browser never runs a cleared timer and never answers
  a request that was not sent.
\<close>

datatype verify_event =
    Buy verify_closure int
  | TimerFires nat int
  | VerifyAnswer nat "verification_result fetch_outcome" int

definition verify_step :: "verify_event \<Rightarrow> pixel_canvas \<times> browser \<Rightarrow> pixel_canvas \<times> browser" where
  "verify_step ev st =
     (case ev of
        Buy cl now \<Rightarrow> verifyTransactionWithBackend cl now st
      | TimerFires i now \<Rightarrow>
          (case timers (snd st) i of
             Some Ticker \<Rightarrow> (ticker_tick now (fst st), snd st)
           | Some (VerifyPoll cl) \<Rightarrow> verify_tick cl st
           | _ \<Rightarrow> st)
      | VerifyAnswer rq outcome now \<Rightarrow>
          (case pending (snd st) rq of
             None \<Rightarrow> st
           | Some cl \<Rightarrow>
               verify_answer cl (verifyTransaction outcome) now
                 (fst st, (snd st)\<lparr>pending := (pending (snd st))(rq := None)\<rparr>)))"

definition verify_run :: "verify_event list \<Rightarrow> pixel_canvas \<times> browser \<Rightarrow> pixel_canvas \<times> browser" where
  "verify_run evs st = fold verify_step evs st"

text \<open>How often the confirmation of a transaction has been processed.\<close>

definition confirmations_of :: "string \<Rightarrow> pixel_canvas \<Rightarrow> nat" where
  "confirmations_of tx pc = length (filter (\<lambda>c. fst c = tx) (balancePollingCalls pc))"

text \<open>
  A scenario used below. The user buys one pack (transaction \<open>A\<close>). The interval fires twice
  before the first answer is back, so two requests for \<open>A\<close> are in flight. The first answer
  reports the transaction verified. The user buys again (transaction \<open>B\<close>), then the second
  answer for \<open>A\<close> arrives, verified as well.
\<close>

definition closure_A :: verify_closure where
  "closure_A = \<lparr>txId = ''A'', packs = 1, txInitialBalance = Some 0,
     seenFastestTransactionTime = None, seenPixelPackSize = 10, seenRemainingPixels = 0\<rparr>"

definition closure_B :: verify_closure where
  "closure_B = \<lparr>txId = ''B'', packs = 1, txInitialBalance = Some 10,
     seenFastestTransactionTime = Some 2500, seenPixelPackSize = 10, seenRemainingPixels = 10\<rparr>"

definition verified_answer :: "verification_result fetch_outcome" where
  "verified_answer = Resolved \<lparr>status = 200, body_text = [], body_json = Inr \<lparr>verified = True\<rparr>\<rparr>"

definition stale_answer_trace :: "verify_event list" where
  "stale_answer_trace =
     [Buy closure_A 0, TimerFires 2 1000, TimerFires 2 2000, VerifyAnswer 1 verified_answer 2500,
      Buy closure_B 9000, VerifyAnswer 2 verified_answer 9500]"

subsection \<open>The wallet-balance loop\<close>

text \<open>
  The variables that \<open>checkBalance\<close> closes over: the connection and address of the render
  that created \<open>startWalletBalancePolling\<close>, the balances, and the three mutable locals.
\<close>

record balance_closure =
  seenIsConnected :: bool
  seenAddress :: "string option"
  initialBalance :: int
  expectedBalance :: int
  lastPolledBalance :: int
  pollCount :: nat
  zeroBalanceCount :: nat
  pollingStartTime :: int

definition maxPollingTime :: int where
  "maxPollingTime = 2 * 60 * 1000"

text \<open>\<open>!isConnected || !address\<close>: a missing and an empty address are both falsy.\<close>

definition not_connected :: "bool \<Rightarrow> string option \<Rightarrow> bool" where
  "not_connected connected addr =
     (\<not> connected \<or> (case addr of None \<Rightarrow> True | Some a \<Rightarrow> a = []))"

text \<open>
  \<open>checkCurrentBalance\<close>; \<open>getWalletBalance\<close> does not throw, so its \<open>catch\<close> is never entered.
\<close>

definition checkCurrentBalance :: "bool \<Rightarrow> string option \<Rightarrow> int \<Rightarrow> balance_data fetch_outcome \<Rightarrow> int" where
  "checkCurrentBalance connected addr initial outcome =
     (if not_connected connected addr then initial else fst (getWalletBalance_result outcome))"

text \<open>
  \<open>checkBalance\<close> up to its \<open>await\<close>, and from the answer on. The second part returns what the
  source returns (\<open>None\<close> for \<open>undefined\<close>); nobody reads it. In the source the assignment
  \<open>lastPolledBalance = currentBalance\<close> comes before the test
  \<open>currentBalance === 0 && lastPolledBalance > 0\<close>, and so it does here.
\<close>

definition checkBalance_begin :: "balance_closure \<Rightarrow> balance_closure" where
  "checkBalance_begin cl =
     (if not_connected (seenIsConnected cl) (seenAddress cl) then cl
      else cl\<lparr>pollCount := Suc (pollCount cl)\<rparr>)"

definition stop_balance_polling :: "pixel_canvas \<times> browser \<Rightarrow> pixel_canvas \<times> browser" where
  "stop_balance_polling st =
     (case st of (pc, b) \<Rightarrow>
        (pc\<lparr>walletBalanceIntervalRef := None\<rparr>, clear_ref (walletBalanceIntervalRef pc) b))"

definition checkBalance_answer ::
  "balance_data fetch_outcome \<Rightarrow> int \<Rightarrow> balance_closure \<times> pixel_canvas \<times> browser
     \<Rightarrow> bool option \<times> balance_closure \<times> pixel_canvas \<times> browser" where
  "checkBalance_answer outcome now st =
     (case st of (cl, pc, b) \<Rightarrow>
        if not_connected (seenIsConnected cl) (seenAddress cl) then (None, cl, pc, b)
        else
          let currentBalance = fst (getWalletBalance_result outcome);
              pc1 = pc\<lparr>remainingPixels := currentBalance\<rparr>
          in if currentBalance \<ge> expectedBalance cl
             then (Some True, cl, stop_balance_polling (pc1, b))
             else
               let cl1 = cl\<lparr>lastPolledBalance := currentBalance\<rparr>
               in if currentBalance = 0 \<and> lastPolledBalance cl1 > 0
                  then
                    let cl2 = cl1\<lparr>zeroBalanceCount := Suc (zeroBalanceCount cl1)\<rparr>
                    in if zeroBalanceCount cl2 \<ge> 3 \<and> pollCount cl2 \<ge> 5
                       then (Some False, cl2, stop_balance_polling (pc1, b))
                       else if now - pollingStartTime cl2 > maxPollingTime
                       then (Some False, cl2, stop_balance_polling (pc1, b))
                       else (Some False, cl2, pc1, b)
                  else
                    let cl2 = cl1\<lparr>zeroBalanceCount := 0\<rparr>
                    in if now - pollingStartTime cl2 > maxPollingTime
                       then (Some False, cl2, stop_balance_polling (pc1, b))
                       else (Some False, cl2, pc1, b))"

text \<open>
  The callback of \<open>checkCurrentBalance().then\<close>: either the balance is already there and no
  loop starts, or the closure is created, \<open>checkBalance()\<close> is called once at once (it runs up
  to its \<open>await\<close>), the 500 ms interval is registered and the 10 s safety timeout is set.
\<close>

definition startWalletBalancePolling_then ::
  "int \<Rightarrow> int \<Rightarrow> int \<Rightarrow> int \<Rightarrow> pixel_canvas \<times> browser
     \<Rightarrow> balance_closure option \<times> pixel_canvas \<times> browser" where
  "startWalletBalancePolling_then pixelsPurchased initial actualInitialBalance now st =
     (case st of (pc, b) \<Rightarrow>
        if actualInitialBalance \<ge> initial + pixelsPurchased
        then (None, pc\<lparr>remainingPixels := actualInitialBalance\<rparr>, b)
        else
          let cl = \<lparr>seenIsConnected = isConnected pc, seenAddress = address pc,
                    initialBalance = initial, expectedBalance = initial + pixelsPurchased,
                    lastPolledBalance = actualInitialBalance, pollCount = 0,
                    zeroBalanceCount = 0, pollingStartTime = now\<rparr>;
              cl1 = checkBalance_begin cl;
              (pid, b1) = set_timer BalancePoll b;
              (sid, b2) = set_timer SafetyTimeout b1
          in (Some cl1, pc\<lparr>walletBalanceIntervalRef := Some pid\<rparr>, b2))"

text \<open>The safety timeout's callback; the timeout itself is gone once it has fired.\<close>

definition safety_timeout :: "nat \<Rightarrow> pixel_canvas \<times> browser \<Rightarrow> pixel_canvas \<times> browser" where
  "safety_timeout sid st =
     (case st of (pc, b) \<Rightarrow>
        case walletBalanceIntervalRef pc of
          None \<Rightarrow> (pc, clear_timer sid b)
        | Some i \<Rightarrow> stop_balance_polling (pc, clear_timer sid b))"

text \<open>
  The events of the loop: the answer to the immediate check arrives; the interval fires and
  its request is answered (one event: a poll that is answered before the next one starts);
  the safety timeout fires. The browser runs only live timers.
\<close>

datatype balance_event =
    FirstAnswer "balance_data fetch_outcome" int
  | Poll nat "balance_data fetch_outcome" int
  | SafetyFires nat

definition balance_step ::
  "balance_event \<Rightarrow> balance_closure \<times> pixel_canvas \<times> browser \<Rightarrow> balance_closure \<times> pixel_canvas \<times> browser" where
  "balance_step ev st =
     (case ev of
        FirstAnswer outcome now \<Rightarrow> snd (checkBalance_answer outcome now st)
      | Poll i outcome now \<Rightarrow>
          (case timers (snd (snd st)) i of
             Some BalancePoll \<Rightarrow>
               snd (checkBalance_answer outcome now (checkBalance_begin (fst st), snd st))
           | _ \<Rightarrow> st)
      | SafetyFires i \<Rightarrow>
          (case timers (snd (snd st)) i of
             Some SafetyTimeout \<Rightarrow> (fst st, safety_timeout i (snd st))
           | _ \<Rightarrow> st))"

definition balance_run ::
  "balance_event list \<Rightarrow> balance_closure \<times> pixel_canvas \<times> browser \<Rightarrow> balance_closure \<times> pixel_canvas \<times> browser" where
  "balance_run evs st = fold balance_step evs st"

text \<open>
  A scenario used below: the wallet holds 5 pixels and 10 were bought, so 15 are expected.
  The loop starts at time 0 with timers 1 (interval) and 2 (safety timeout); the balance
  endpoint then answers 0 six times in a row, at 100 ms and at every 500 ms tick.
\<close>

definition balance_answer :: "int \<Rightarrow> balance_data fetch_outcome" where
  "balance_answer n = Resolved \<lparr>status = 200, body_text = [], body_json = Inr \<lparr>pixel_balance = n\<rparr>\<rparr>"

definition zero_start :: "balance_closure option \<times> pixel_canvas \<times> browser" where
  "zero_start = startWalletBalancePolling_then 10 5 5 0
     ((pc_init False True (Some ''kaspa:abc''))\<lparr>remainingPixels := 5\<rparr>, browser_init)"

definition zero_polls :: "balance_event list" where
  "zero_polls = [FirstAnswer (balance_answer 0) 100, Poll 1 (balance_answer 0) 500,
     Poll 1 (balance_answer 0) 1000, Poll 1 (balance_answer 0) 1500,
     Poll 1 (balance_answer 0) 2000, Poll 1 (balance_answer 0) 2500]"

subsection \<open>The WebSocket hook: connection, heartbeat, reconnect\<close>

text \<open>\<open>socket.close()\<close> starts the closing handshake; the \<open>close\<close> event comes later.\<close>

definition socket_close :: "nat \<Rightarrow> browser \<Rightarrow> browser" where
  "socket_close sid b =
     (case sockets b sid of
        Some OPEN \<Rightarrow> b\<lparr>sockets := (sockets b)(sid \<mapsto> CLOSING)\<rparr>
      | Some CONNECTING \<Rightarrow> b\<lparr>sockets := (sockets b)(sid \<mapsto> CLOSING)\<rparr>
      | _ \<Rightarrow> b)"

text \<open>The reconnect of \<open>onclose\<close> and of the \<open>catch\<close>: drop a waiting timeout, set a new one.\<close>

definition schedule_reconnect :: "ws_hook \<times> browser \<Rightarrow> ws_hook \<times> browser" where
  "schedule_reconnect st =
     (case st of (h, b) \<Rightarrow>
        let (rid, b1) = set_timer Reconnect (clear_ref (reconnectTimeoutRef h) b)
        in (h\<lparr>reconnectTimeoutRef := Some rid\<rparr>, b1))"

text \<open>\<open>connectWebSocket\<close>; the flag says whether \<open>new WebSocket(wsUrl)\<close> returns or throws.\<close>

definition connectWebSocket :: "bool \<Rightarrow> ws_hook \<times> browser \<Rightarrow> ws_hook \<times> browser" where
  "connectWebSocket constructed st =
     (case st of (h, b) \<Rightarrow>
        if (case socketRef h of Some sid \<Rightarrow> sockets b sid = Some OPEN | None \<Rightarrow> False)
        then (h, b)
        else if constructed
        then (h\<lparr>isConnecting := True, socketRef := Some (next_socket b)\<rparr>,
              b\<lparr>sockets := (sockets b)(next_socket b \<mapsto> CONNECTING),
                next_socket := Suc (next_socket b)\<rparr>)
        else schedule_reconnect (h\<lparr>isConnecting := True\<rparr>, b))"

definition ws_onopen :: "nat \<Rightarrow> ws_hook \<times> browser \<Rightarrow> ws_hook \<times> browser" where
  "ws_onopen sid st =
     (case st of (h, b) \<Rightarrow>
        let b1 = clear_ref (pingIntervalRef h) (b\<lparr>sockets := (sockets b)(sid \<mapsto> OPEN)\<rparr>);
            (pid, b2) = set_timer (PingTick sid) b1
        in (h\<lparr>isWsConnected := True, isConnecting := False, pingIntervalRef := Some pid\<rparr>, b2))"

definition ws_onclose :: "nat \<Rightarrow> ws_hook \<times> browser \<Rightarrow> ws_hook \<times> browser" where
  "ws_onclose sid st =
     (case st of (h, b) \<Rightarrow>
        schedule_reconnect
          (h\<lparr>isWsConnected := False, isConnecting := False, pingIntervalRef := None\<rparr>,
           clear_ref (pingIntervalRef h) (b\<lparr>sockets := (sockets b)(sid \<mapsto> CLOSED)\<rparr>)))"

definition ws_onerror :: "nat \<Rightarrow> ws_hook \<times> browser \<Rightarrow> ws_hook \<times> browser" where
  "ws_onerror sid st = (fst st, socket_close sid (snd st))"

text \<open>The heartbeat, every 15 s: send a ping, and close the socket after 45 s of silence.\<close>

definition ping_tick :: "nat \<Rightarrow> int \<Rightarrow> ws_hook \<times> browser \<Rightarrow> ws_hook \<times> browser" where
  "ping_tick sid now st =
     (case st of (h, b) \<Rightarrow>
        if sockets b sid = Some OPEN \<and> now - lastPongRef h > 45000
        then (h, socket_close sid b)
        else (h, b))"

text \<open>
  The cleanup the effect returns. It closes the socket and clears the two timers it finds in
  the refs; it detaches no handler and leaves the refs as they are.
\<close>

definition ws_cleanup :: "ws_hook \<times> browser \<Rightarrow> ws_hook \<times> browser" where
  "ws_cleanup st =
     (case st of (h, b) \<Rightarrow>
        let b1 = (case socketRef h of Some sid \<Rightarrow> socket_close sid b | None \<Rightarrow> b)
        in (h, clear_ref (pingIntervalRef h) (clear_ref (reconnectTimeoutRef h) b1)))"

text \<open>
  The events of the hook. The browser opens only a connecting socket, delivers \<open>close\<close> once
  to a socket that is not yet closed, and runs only live timers; a timeout is gone once it
  has fired.
\<close>

datatype ws_event =
    SocketOpens nat
  | SocketCloses nat
  | SocketErrors nat
  | WsTimerFires nat int bool
  | Frame ws_message int
  | Cleanup

definition ws_step :: "ws_event \<Rightarrow> ws_hook \<times> browser \<Rightarrow> ws_hook \<times> browser" where
  "ws_step ev st =
     (case ev of
        SocketOpens sid \<Rightarrow>
          (if sockets (snd st) sid = Some CONNECTING then ws_onopen sid st else st)
      | SocketCloses sid \<Rightarrow>
          (case sockets (snd st) sid of
             None \<Rightarrow> st
           | Some CLOSED \<Rightarrow> st
           | _ \<Rightarrow> ws_onclose sid st)
      | SocketErrors sid \<Rightarrow>
          (case sockets (snd st) sid of
             None \<Rightarrow> st
           | Some CLOSED \<Rightarrow> st
           | _ \<Rightarrow> ws_onerror sid st)
      | WsTimerFires i now constructed \<Rightarrow>
          (case timers (snd st) i of
             Some (PingTick sid) \<Rightarrow> ping_tick sid now st
           | Some Reconnect \<Rightarrow> connectWebSocket constructed (fst st, clear_timer i (snd st))
           | _ \<Rightarrow> st)
      | Frame msg now \<Rightarrow> (onmessage now msg (fst st), snd st)
      | Cleanup \<Rightarrow> ws_cleanup st)"

definition ws_run :: "ws_event list \<Rightarrow> ws_hook \<times> browser \<Rightarrow> ws_hook \<times> browser" where
  "ws_run evs st = fold ws_step evs st"

subsection \<open>Teardown\<close>

text \<open>The cleanup of \<open>PixelCanvas\<close>: its three intervals, when the refs hold one.\<close>

definition pc_cleanup :: "pixel_canvas \<times> browser \<Rightarrow> pixel_canvas \<times> browser" where
  "pc_cleanup st =
     (case st of (pc, b) \<Rightarrow>
        (pc, clear_ref (walletBalanceIntervalRef pc)
               (clear_ref (timerIntervalRef pc)
                  (clear_ref (verificationIntervalRef pc) b))))"

text \<open>Unmounting the component runs both cleanups.\<close>

definition unmount :: "ws_hook \<times> pixel_canvas \<times> browser \<Rightarrow> ws_hook \<times> pixel_canvas \<times> browser" where
  "unmount page =
     (case page of (h, pc, b) \<Rightarrow>
        case ws_cleanup (h, b) of (h1, b1) \<Rightarrow>
          case pc_cleanup (pc, b1) of (pc1, b2) \<Rightarrow> (h1, pc1, b2))"

text \<open>
  A scenario used below: the page is mounted, the socket is open and a purchase is being
  verified, so the heartbeat (timer 1), the ticker (timer 2) and the verification interval
  (timer 3) are live. Then the component is unmounted.
\<close>

definition mounted_page :: "ws_hook \<times> pixel_canvas \<times> browser" where
  "mounted_page =
     (case ws_run [SocketOpens 1] (connectWebSocket True (ws_init 0, browser_init)) of
        (h, b) \<Rightarrow>
          case verifyTransactionWithBackend closure_A 1000
                 (pc_init False True (Some ''kaspa:abc''), b) of
            (pc, b1) \<Rightarrow> (h, pc, b1))"

definition after_unmount :: "ws_hook \<times> browser" where
  "after_unmount = (case unmount mounted_page of (h, pc, b) \<Rightarrow> (h, b))"




section \<open>Properties\<close>

subsection \<open>The balance read\<close>

text \<open>
  C9. For every wallet address, a balance query that fails (fetch rejects, or the response
  is not OK) makes \<open>getWalletBalance\<close> return 0 without propagating anything: the value
  is the one a successful read of a true zero balance returns, so the caller cannot tell
  the two apart.
\<close>

theorem getWalletBalance_failure_is_zero:
  assumes "fetch_failed (fetch (balanceUrl baseUrl t addr))"
  shows "fst (getWalletBalance fetch baseUrl t addr api) = 0
       \<and> fst (getWalletBalance fetch baseUrl t addr api)
         = fst (getWalletBalance
                 (\<lambda>url. Resolved \<lparr>status = 200, body_text = txt, body_json = Inr \<lparr>pixel_balance = 0\<rparr>\<rparr>)
                 baseUrl t addr api)"
  using assms
  by (auto simp: getWalletBalance_def getWalletBalance_result_def fetch_failed_def ok_def
      split: fetch_outcome.splits)

theorem getWalletBalance_failure_is_zero_witness:
  "fetch_failed (Resolved \<lparr>status = 500, body_text = ''oops'', body_json = Inl ''bad''\<rparr>
                   :: balance_data fetch_outcome)
   \<and> fst (getWalletBalance (\<lambda>url. Resolved \<lparr>status = 500, body_text = ''oops'', body_json = Inl ''bad''\<rparr>)
          ''/api/v1'' 7 ''kaspa:abc'' \<lparr>isLoading = False, error = None\<rparr>) = 0"
proof -
  have h: "fetch_failed (Resolved \<lparr>status = 500, body_text = ''oops'', body_json = Inl ''bad''\<rparr>
                   :: balance_data fetch_outcome)"
    by (simp add: fetch_failed_def ok_def)
  from getWalletBalance_failure_is_zero [of "\<lambda>url. Resolved \<lparr>status = 500, body_text = ''oops'', body_json = Inl ''bad''\<rparr>", OF h]
  show ?thesis using h by simp
qed

subsection \<open>Snapshots and deltas\<close>

lemma deliver_Pixel_update:
  "deliver now (Pixel_update x y c) (h, pc) =
     (h\<lparr>canvasState := (canvasState h)(pixelKey x y \<mapsto> c)\<rparr>,
      pc\<lparr>localCanvasState := localCanvasState pc ++ (canvasState h)(pixelKey x y \<mapsto> c),
         backendStatus := Online\<rparr>)"
  by (simp add: deliver_def onmessage_def mergeCanvasState_def)

lemma deliver_Canvas_state_local:
  "localCanvasState (snd (deliver now (Canvas_state snap) st)) k =
     (case snap k of Some v \<Rightarrow> Some v | None \<Rightarrow> localCanvasState (snd st) k)"
proof (cases "dom snap = {}")
  case True
  then have "snap k = None" by auto
  with True show ?thesis
    by (simp add: deliver_def onmessage_def mergeCanvasState_def)
next
  case False
  then show ?thesis
    by (simp add: deliver_def onmessage_def mergeCanvasState_def map_add_def split: option.splits)
qed

text \<open>
  C4, as the code has it. On a snapshot the hook's canvas is replaced wholesale by the
  snapshot, and the local view is overlaid with it: a cell of the snapshot takes the
  snapshot's colour, and every locally held cell that the snapshot does not contain keeps its
  local colour, whether it was written locally or received earlier.
\<close>

theorem snapshot_overlays_local_view:
  "canvasState (fst (deliver now (Canvas_state snap) st)) = snap
   \<and> (\<forall>k. localCanvasState (snd (deliver now (Canvas_state snap) st)) k =
           (case snap k of Some v \<Rightarrow> Some v | None \<Rightarrow> localCanvasState (snd st) k))"
  by (simp add: deliver_Canvas_state_local) (simp add: deliver_def onmessage_def)

text \<open>
  C4, as stated, fails: a client that never clicked receives the snapshot \<open>{"1,1": "#111111"}\<close>
  and then the snapshot \<open>{"2,2": "#222222"}\<close>. Cell \<open>1,1\<close> is absent from the second snapshot
  and is no local write, yet the local view still holds it.
\<close>

theorem snapshot_keeps_absent_cells_counterexample:
  "localCanvasState (snd (deliver 0 (Canvas_state [''2,2'' \<mapsto> ''#222222''])
       (deliver 0 (Canvas_state [''1,1'' \<mapsto> ''#111111''])
          (ws_init 0, pc_init False True (Some ''kaspa:abc''))))) ''1,1'' = Some ''#111111''
   \<and> [''2,2'' \<mapsto> ''#222222''] ''1,1'' = None
   \<and> placeRequests (snd (deliver 0 (Canvas_state [''2,2'' \<mapsto> ''#222222''])
       (deliver 0 (Canvas_state [''1,1'' \<mapsto> ''#111111''])
          (ws_init 0, pc_init False True (Some ''kaspa:abc''))))) = []"
  by (simp add: deliver_def onmessage_def mergeCanvasState_def ws_init_def pc_init_def)

lemma deliver_deltas_snoc:
  "deliver_deltas now (ds @ [d]) st =
     deliver now (Pixel_update (dx d) (dy d) (dcolor d)) (deliver_deltas now ds st)"
  by (simp add: deliver_deltas_def)

lemma deliver_Pixel_update_local:
  "localCanvasState (snd (deliver now (Pixel_update x y c) st)) (pixelKey x y) = Some c"
  by (cases st) (simp add: deliver_Pixel_update)

text \<open>
  C5, as the code has it. A delta carries no time stamp or sequence number, so the merge is
  last-delivered-wins: after a non-empty run of deltas for one cell, the cell's colour in the
  local view is the colour of the delta delivered last.
\<close>

theorem last_delivered_delta_wins:
  assumes "ds \<noteq> []" and "\<forall>d \<in> set ds. dx d = x \<and> dy d = y"
  shows "localCanvasState (snd (deliver_deltas now ds st)) (pixelKey x y) = Some (dcolor (last ds))"
proof -
  from assms(1) obtain ds' d where ds: "ds = ds' @ [d]"
    by (metis rev_exhaust)
  with assms(2) have "dx d = x" "dy d = y" by auto
  then show ?thesis
    using deliver_Pixel_update_local [of now x y "dcolor d" "deliver_deltas now ds' st"]
    by (simp add: ds deliver_deltas_snoc)
qed

theorem last_delivered_delta_wins_witness:
  "localCanvasState (snd (deliver_deltas 0
       [\<lparr>dx = 0, dy = 0, dcolor = ''#0000FF''\<rparr>, \<lparr>dx = 0, dy = 0, dcolor = ''#FF0000''\<rparr>]
       (ws_init 0, pc_init False True None))) (pixelKey 0 0) = Some ''#FF0000''"
  using last_delivered_delta_wins [of
      "[\<lparr>dx = 0, dy = 0, dcolor = ''#0000FF''\<rparr>, \<lparr>dx = 0, dy = 0, dcolor = ''#FF0000''\<rparr>]" 0 0 0
      "(ws_init 0, pc_init False True None)"]
  by simp

text \<open>
  C5, as stated, fails: the server accepts red and then blue for cell \<open>(0,0)\<close>, and the two
  deltas reach the client in the other order. The client ends on red, the colour of the write
  accepted first, not on blue, the colour of the write accepted last.
\<close>

theorem delivery_order_decides_counterexample:
  "localCanvasState (snd (deliver_deltas 0
       (rev [\<lparr>dx = 0, dy = 0, dcolor = ''#FF0000''\<rparr>, \<lparr>dx = 0, dy = 0, dcolor = ''#0000FF''\<rparr>])
       (ws_init 0, pc_init False True None))) (pixelKey 0 0)
   \<noteq> Some (dcolor (last [\<lparr>dx = 0, dy = 0, dcolor = ''#FF0000''\<rparr>, \<lparr>dx = 0, dy = 0, dcolor = ''#0000FF''\<rparr>]))"
  by (simp add: deliver_deltas_def deliver_Pixel_update_local)

lemma map_add_upd_twice:
  "((m ++ cs)(k \<mapsto> v) ++ cs)(k \<mapsto> v) = (m ++ cs)(k \<mapsto> v)"
  by (rule ext) (simp add: map_add_def split: option.splits)

text \<open>
  C6. Merging a delta is idempotent: for every state of the hook and of the component and
  every delta \<open>{x, y, color}\<close>, delivering the delta a second time leaves exactly the state
  that the first delivery produced.
\<close>

theorem deliver_delta_idempotent:
  "deliver now (Pixel_update x y c) (deliver now (Pixel_update x y c) st)
     = deliver now (Pixel_update x y c) st"
  by (cases st) (simp add: deliver_Pixel_update map_add_upd_twice)

subsection \<open>Clicks\<close>




text \<open>
  C10, as the code has it. When the remaining balance is at most 0 or the wallet is not
  connected, a click makes no optimistic update and sends no write request. What the user
  sees instead depends on the first guard that applies: on a mobile client the mobile notice,
  otherwise the connect-wallet toast when the wallet is not connected, otherwise the purchase
  modal. Nothing else of the component changes.
\<close>

theorem click_without_credit_or_wallet:
  assumes "remainingPixels pc \<le> 0 \<or> \<not> isConnected pc"
  shows "localCanvasState (handlePixelClick ck outcome pc) = localCanvasState pc
       \<and> placeRequests (handlePixelClick ck outcome pc) = placeRequests pc
       \<and> (if isMobile pc
          then handlePixelClick ck outcome pc = pc\<lparr>showMobileMessage := True\<rparr>
          else if \<not> isConnected pc
          then handlePixelClick ck outcome pc = pc\<lparr>toasts := toasts pc @ [wallet_not_connected_toast]\<rparr>
          else handlePixelClick ck outcome pc = pc\<lparr>showPurchaseModal := True\<rparr>)"
  using assms by (auto simp: handlePixelClick_def handlePixelClick_begin_def)

theorem click_without_credit_or_wallet_witness:
  "remainingPixels ((pc_init False True (Some ''kaspa:abc''))\<lparr>remainingPixels := 0\<rparr>) \<le> 0
   \<and> showPurchaseModal (handlePixelClick denied_click denied_answer
         ((pc_init False True (Some ''kaspa:abc''))\<lparr>remainingPixels := 0\<rparr>))
   \<and> localCanvasState (handlePixelClick denied_click denied_answer
         ((pc_init False True (Some ''kaspa:abc''))\<lparr>remainingPixels := 0\<rparr>)) = Map.empty"
proof -
  have h: "remainingPixels ((pc_init False True (Some ''kaspa:abc''))\<lparr>remainingPixels := 0\<rparr>) \<le> 0
     \<or> \<not> isConnected ((pc_init False True (Some ''kaspa:abc''))\<lparr>remainingPixels := 0\<rparr>)"
    by simp
  from click_without_credit_or_wallet [OF h, of denied_click denied_answer]
  show ?thesis by (simp add: pc_init_def)
qed

text \<open>
  C10, as stated, fails on a mobile client: with a connected wallet and no pixels left the
  click opens neither the purchase modal nor a connect-wallet prompt; the handler returns at
  its first guard with the mobile notice.
\<close>

theorem mobile_click_shows_no_purchase_modal_counterexample:
  "remainingPixels mobile_no_credit \<le> 0
   \<and> \<not> showPurchaseModal (handlePixelClick denied_click denied_answer mobile_no_credit)
   \<and> toasts (handlePixelClick denied_click denied_answer mobile_no_credit) = []
   \<and> showMobileMessage (handlePixelClick denied_click denied_answer mobile_no_credit)"
  by (simp add: mobile_no_credit_def pc_init_def handlePixelClick_def handlePixelClick_begin_def)

subsection \<open>The polling loops\<close>

lemma timers_socket_close: "timers (socket_close sid b) = timers b"
  by (simp add: socket_close_def split: option.splits ready_state.splits)

lemma timers_clear_ref:
  "timers (clear_ref r b) i = (if r = Some i then None else timers b i)"
  by (cases r) (auto simp: clear_ref_def clear_timer_def)







text \<open>
  Within one call of \<open>verifyTransactionWithBackend\<close> the flag does its work: however the
  ticks and the answers interleave, as long as no new purchase resets the flag, at most one
  answer is processed.
\<close>

lemma verify_step_no_buy:
  assumes "\<forall>cl t. ev \<noteq> Buy cl t"
  shows "(isVerifiedRef (fst st) \<longrightarrow>
            isVerifiedRef (fst (verify_step ev st))
            \<and> balancePollingCalls (fst (verify_step ev st)) = balancePollingCalls (fst st))
       \<and> (\<not> isVerifiedRef (fst st) \<longrightarrow>
            balancePollingCalls (fst (verify_step ev st)) = balancePollingCalls (fst st)
            \<or> (isVerifiedRef (fst (verify_step ev st))
               \<and> (\<exists>c. balancePollingCalls (fst (verify_step ev st)) = balancePollingCalls (fst st) @ [c])))"
proof (cases ev)
  case (Buy cl t)
  with assms show ?thesis by simp
next
  case (TimerFires i now)
  then show ?thesis
    by (cases st)
      (auto simp: verify_step_def ticker_tick_def verify_tick_def
        split: option.splits callback.splits)
next
  case (VerifyAnswer rq outcome now)
  then show ?thesis
    by (cases st)
      (auto simp: verify_step_def verify_answer_def startWalletBalancePolling_begin_def Let_def
        split: option.splits sum.splits)
qed

lemma single_run_confirms_at_most_once:
  assumes "\<forall>ev \<in> set evs. \<forall>cl t. ev \<noteq> Buy cl t"
  shows "length (balancePollingCalls (fst (verify_run evs st)))
           \<le> length (balancePollingCalls (fst st)) + (if isVerifiedRef (fst st) then 0 else 1)"
  using assms
proof (induction evs arbitrary: st)
  case Nil
  then show ?case by (simp add: verify_run_def)
next
  case (Cons ev evs)
  have run: "verify_run (ev # evs) st = verify_run evs (verify_step ev st)"
    by (simp add: verify_run_def)
  from Cons.prems have nb: "\<forall>cl t. ev \<noteq> Buy cl t" by simp
  from Cons.prems have rest: "\<forall>e \<in> set evs. \<forall>cl t. e \<noteq> Buy cl t" by simp
  note ih = Cons.IH [OF rest, of "verify_step ev st"]
  note stp = verify_step_no_buy [OF nb, of st]
  show ?case
  proof (cases "isVerifiedRef (fst st)")
    case True
    with stp ih show ?thesis by (simp add: run)
  next
    case False
    with stp ih show ?thesis by (auto simp: run split: if_splits)
  qed
qed

text \<open>
  C1. The confirmation of a transaction is meant to be processed at most once. The flag that
  guards the processing is shared by all transactions and is reset when the next purchase
  starts, while requests of the earlier transaction may still be in flight. On the trace
  \<open>stale_answer_trace\<close> the confirmation of transaction \<open>A\<close> is processed twice: once for the
  first verified answer, and once more for the second answer, which arrives after the purchase
  of \<open>B\<close> has cleared the flag. That second processing also clears the verification interval of
  \<open>B\<close> (timer 4), whose own confirmation is then never processed.
\<close>

theorem stale_answer_confirms_twice:
  "confirmations_of ''A'' (fst (verify_run stale_answer_trace
      (pc_init False True (Some ''kaspa:abc''), browser_init))) = 2
   \<and> confirmations_of ''B'' (fst (verify_run stale_answer_trace
      (pc_init False True (Some ''kaspa:abc''), browser_init))) = 0
   \<and> timers (snd (verify_run stale_answer_trace
      (pc_init False True (Some ''kaspa:abc''), browser_init))) 4 = None"
  by code_simp

text \<open>
  What the balance loop does do: an answered poll writes the balance it read to
  \<open>remainingPixels\<close>; a balance at or above the expected one stops the interval; the safety
  timeout stops it after 10 s.
\<close>

lemma checkBalance_answer_reached:
  assumes "\<not> not_connected (seenIsConnected cl) (seenAddress cl)"
    and "expectedBalance cl \<le> fst (getWalletBalance_result outcome)"
  shows "checkBalance_answer outcome now (cl, pc, b) =
           (Some True, cl,
            pc\<lparr>remainingPixels := fst (getWalletBalance_result outcome), walletBalanceIntervalRef := None\<rparr>,
            clear_ref (walletBalanceIntervalRef pc) b)"
  using assms by (simp add: checkBalance_answer_def stop_balance_polling_def Let_def)

lemma checkBalance_answer_reports:
  assumes "\<not> not_connected (seenIsConnected cl) (seenAddress cl)"
  shows "remainingPixels (fst (snd (snd (checkBalance_answer outcome now (cl, pc, b)))))
           = fst (getWalletBalance_result outcome)"
  using assms by (simp add: checkBalance_answer_def stop_balance_polling_def Let_def)

lemma safety_timeout_stops:
  assumes "walletBalanceIntervalRef pc = Some i"
  shows "walletBalanceIntervalRef (fst (safety_timeout sid (pc, b))) = None
       \<and> timers (snd (safety_timeout sid (pc, b))) i = None"
  using assms
  by (simp add: safety_timeout_def stop_balance_polling_def timers_clear_ref)

text \<open>
  C2. The loop is meant to stop after three polls in a row that see the balance drop to zero
  after it was nonzero. In \<open>checkBalance\<close> the last polled balance is overwritten with the
  current one before the two are compared, so the comparison never holds and the zero counter
  is reset on every poll. In the scenario \<open>zero_start\<close> the balance was 5 and is then read as 0
  six times in a row: after the sixth poll the interval is still registered, the ref still
  points at it, and the zero counter is 0.
\<close>

theorem zero_balance_never_stops_polling:
  "(case zero_start of
      (Some cl, st) \<Rightarrow>
        walletBalanceIntervalRef (fst (snd (balance_run zero_polls (cl, st)))) = Some 1
        \<and> timers (snd (snd (balance_run zero_polls (cl, st)))) 1 = Some BalancePoll
        \<and> zeroBalanceCount (fst (balance_run zero_polls (cl, st))) = 0
        \<and> pollCount (fst (balance_run zero_polls (cl, st))) = 6
    | (None, st) \<Rightarrow> False)"
  by code_simp

subsection \<open>Teardown\<close>

text \<open>
  The two cleanups clear every timer that one of the five refs names at the moment of the
  unmount.
\<close>

lemma unmount_browser:
  "snd (snd (unmount (h, pc, b))) =
     clear_ref (walletBalanceIntervalRef pc) (clear_ref (timerIntervalRef pc)
       (clear_ref (verificationIntervalRef pc) (clear_ref (pingIntervalRef h)
         (clear_ref (reconnectTimeoutRef h)
            (case socketRef h of Some sid \<Rightarrow> socket_close sid b | None \<Rightarrow> b)))))"
  by (simp add: unmount_def ws_cleanup_def pc_cleanup_def Let_def)

lemma unmount_clears_referenced_timers:
  assumes "r \<in> {verificationIntervalRef pc, timerIntervalRef pc, walletBalanceIntervalRef pc,
               pingIntervalRef h, reconnectTimeoutRef h}"
    and "r = Some i"
  shows "timers (snd (snd (unmount (h, pc, b)))) i = None"
  using assms by (auto simp: unmount_browser timers_clear_ref)

text \<open>
  C8. After teardown no loop is meant to remain active. The hook's cleanup closes the socket
  but leaves \<open>onclose\<close> attached, and \<open>onclose\<close> schedules a reconnect. In the scenario
  \<open>mounted_page\<close> the unmount leaves the socket closing; when its \<open>close\<close> event arrives a
  reconnect timeout is set (timer 4), and when that fires and the new socket opens, a new
  heartbeat interval (timer 5) runs on the unmounted component.
\<close>

theorem teardown_leaves_reconnect_loop:
  "sockets (snd after_unmount) 1 = Some CLOSING
   \<and> timers (snd (ws_run [SocketCloses 1] after_unmount)) 4 = Some Reconnect
   \<and> timers (snd (ws_run [SocketCloses 1, WsTimerFires 4 5000 True, SocketOpens 2] after_unmount)) 5
       = Some (PingTick 2)"
  by code_simp

end
